theory Spec2Isabelle
  imports Main "HOL-Library.Sublist"
begin

section \<open>Values and effects\<close>

text \<open>
  A Python \<open>str\<close> is modelled by its UTF-8 encoding, a \<^typ>\<open>string\<close>: this is the text the
  backing file holds, and a string occurs in another as a substring exactly when its
  encoding occurs in the other's encoding as a contiguous sublist. Python's \<open>int\<close> is
  \<^typ>\<open>int\<close>.

  The value \<open>json.loads\<close> returns: \<open>None\<close>, a \<open>bool\<close>, an \<open>int\<close>, a \<open>float\<close> (kept
  as the text of its literal), a \<open>str\<close>, a \<open>list\<close> or a \<open>dict\<close> (its items in their
  order).
\<close>

datatype json =
    JNull
  | JBool bool
  | JInt int
  | JFloat string
  | JStr string
  | JArr "json list"
  | JObj "(string \<times> json) list"

text \<open>
  The exceptions of the load path. \<open>KeyError k\<close> and \<open>TypeError\<close> are Python's.
  \<open>FieldType k\<close> is not an exception of Python: it marks a record whose value under the
  key \<open>k\<close> is not of the type the class \<open>Book\<close> declares for that attribute. Python
  builds the \<open>Book\<close> all the same; the typed record below cannot hold it, so the model
  stops there instead of inventing a value.
\<close>

datatype error = KeyError string | TypeError | FieldType string

text \<open>
  The two lines the library layer prints: the notice of \<open>load_books\<close> that the JSON
  could not be decoded, and the notice of \<open>remove_book\<close> and \<open>change_status\<close> that no
  book has the identifier given (the identifier is part of the line).
\<close>

datatype message = DecodeErrorMsg | NotFoundMsg int

text \<open>
  A file is modelled by what \<open>file.read().strip()\<close> and \<open>json.loads\<close> make of its text:
  \<open>Blank\<close> when nothing is left after \<open>strip()\<close>, \<open>Malformed\<close> when \<open>json.loads\<close> raises
  \<open>JSONDecodeError\<close>, and \<open>Document v\<close> when it returns \<open>v\<close>. \<open>json.dump\<close> of a value
  \<open>v\<close> writes a text that \<open>json.loads\<close> reads back as \<open>v\<close>. Reading and writing
  themselves do not fail in this model (no permission, disk or encoding errors).
\<close>

datatype file_content = Blank | Malformed | Document json

record world =
  files :: "string \<rightharpoonup> file_content"
  stdout :: "message list"

section \<open>Book\<close>

record book =
  book_id :: int
  title :: string
  author :: string
  year :: int
  status :: string

text \<open>
  The default of the parameter \<open>status\<close> of \<open>Book.__init__\<close>: the UTF-8 encoding of the
  Russian literal for "available" (two words, 17 bytes).
\<close>

definition default_status :: string where
  "default_status =
     [CHR 0xD0, CHR 0xB2, CHR 0x20, CHR 0xD0, CHR 0xBD, CHR 0xD0, CHR 0xB0, CHR 0xD0, CHR 0xBB,
      CHR 0xD0, CHR 0xB8, CHR 0xD1, CHR 0x87, CHR 0xD0, CHR 0xB8, CHR 0xD0, CHR 0xB8]"

definition Book :: "string \<Rightarrow> string \<Rightarrow> int \<Rightarrow> int \<Rightarrow> string \<Rightarrow> book" where
  "Book ttl auth yr bid st =
     \<lparr>book_id = bid, title = ttl, author = auth, year = yr, status = st\<rparr>"

definition to_dict :: "book \<Rightarrow> json" where
  "to_dict b =
     JObj [(''id'', JInt (book_id b)),
           (''title'', JStr (title b)),
           (''author'', JStr (author b)),
           (''year'', JInt (year b)),
           (''status'', JStr (status b))]"

text \<open>\<open>data[k]\<close>: a \<open>dict\<close> without the key raises \<open>KeyError\<close>; no other JSON value can be
  subscripted by a \<open>str\<close>.\<close>

fun getitem :: "json \<Rightarrow> string \<Rightarrow> error + json" where
  "getitem (JObj kvs) k = (case map_of kvs k of None \<Rightarrow> Inl (KeyError k) | Some v \<Rightarrow> Inr v)"
| "getitem _ k = Inl TypeError"

fun as_int :: "string \<Rightarrow> json \<Rightarrow> error + int" where
  "as_int k (JInt n) = Inr n"
| "as_int k _ = Inl (FieldType k)"

fun as_str :: "string \<Rightarrow> json \<Rightarrow> error + string" where
  "as_str k (JStr s) = Inr s"
| "as_str k _ = Inl (FieldType k)"

text \<open>
  \<open>Book.from_dict\<close>: the five subscripts are evaluated in the order of the arguments of the
  call (title, author, year, id, status), each raising before the next is tried, and only
  then is the \<open>Book\<close> built.
\<close>

definition from_dict :: "json \<Rightarrow> error + book" where
  "from_dict data =
     (case getitem data ''title'' of Inl e \<Rightarrow> Inl e | Inr vt \<Rightarrow>
     (case getitem data ''author'' of Inl e \<Rightarrow> Inl e | Inr va \<Rightarrow>
     (case getitem data ''year'' of Inl e \<Rightarrow> Inl e | Inr vy \<Rightarrow>
     (case getitem data ''id'' of Inl e \<Rightarrow> Inl e | Inr vi \<Rightarrow>
     (case getitem data ''status'' of Inl e \<Rightarrow> Inl e | Inr vs \<Rightarrow>
     (case as_str ''title'' vt of Inl e \<Rightarrow> Inl e | Inr ttl \<Rightarrow>
     (case as_str ''author'' va of Inl e \<Rightarrow> Inl e | Inr auth \<Rightarrow>
     (case as_int ''year'' vy of Inl e \<Rightarrow> Inl e | Inr yr \<Rightarrow>
     (case as_int ''id'' vi of Inl e \<Rightarrow> Inl e | Inr bid \<Rightarrow>
     (case as_str ''status'' vs of Inl e \<Rightarrow> Inl e | Inr st \<Rightarrow>
        Inr (Book ttl auth yr bid st)))))))))))"

section \<open>Library\<close>

record library =
  storage_file :: string
  books :: "book list"

text \<open>
  \<open>for book in json.loads(data)\<close>: a list yields its elements, a dict its keys, a string
  its characters (each a string again, so the number of them does not matter to
  \<open>from_dict\<close>, which raises on the first); nothing else can be iterated.
\<close>

fun iterate :: "json \<Rightarrow> error + json list" where
  "iterate (JArr xs) = Inr xs"
| "iterate (JObj kvs) = Inr (map (\<lambda>kv. JStr (fst kv)) kvs)"
| "iterate (JStr s) = Inr (map (\<lambda>c. JStr [c]) s)"
| "iterate _ = Inl TypeError"

text \<open>The list comprehension \<open>[Book.from_dict(book) for book in ...]\<close>: the first record
  that raises ends it, and no list is built.\<close>

fun from_dicts :: "json list \<Rightarrow> error + book list" where
  "from_dicts [] = Inr []"
| "from_dicts (x # xs) =
     (case from_dict x of
        Inl e \<Rightarrow> Inl e
      | Inr b \<Rightarrow> (case from_dicts xs of Inl e \<Rightarrow> Inl e | Inr bs \<Rightarrow> Inr (b # bs)))"

text \<open>
  \<open>load_books\<close>. Only \<open>JSONDecodeError\<close> is caught (and answered by the notice); every
  other exception leaves the method, here as \<open>Inl\<close>. The attribute \<open>books\<close> is assigned
  only when the whole comprehension has been evaluated.
\<close>

definition load_books :: "library \<Rightarrow> world \<Rightarrow> error + library \<times> world" where
  "load_books self w =
     (case files w (storage_file self) of
        None \<Rightarrow> Inr (self, w)
      | Some Blank \<Rightarrow> Inr (self, w)
      | Some Malformed \<Rightarrow> Inr (self, w\<lparr>stdout := stdout w @ [DecodeErrorMsg]\<rparr>)
      | Some (Document v) \<Rightarrow>
          (case iterate v of
             Inl e \<Rightarrow> Inl e
           | Inr xs \<Rightarrow>
               (case from_dicts xs of
                  Inl e \<Rightarrow> Inl e
                | Inr bs \<Rightarrow> Inr (self\<lparr>books := bs\<rparr>, w))))"

text \<open>\<open>Library.__init__\<close>: an empty list of books, then \<open>load_books\<close>.\<close>

definition Library_init :: "string \<Rightarrow> world \<Rightarrow> error + library \<times> world" where
  "Library_init path w = load_books \<lparr>storage_file = path, books = []\<rparr> w"

definition save_books :: "library \<Rightarrow> world \<Rightarrow> world" where
  "save_books self w =
     w\<lparr>files := (files w)(storage_file self \<mapsto> Document (JArr (map to_dict (books self))))\<rparr>"

definition generate_id :: "library \<Rightarrow> int" where
  "generate_id self =
     (if books self \<noteq> [] then Max (set (map book_id (books self))) + 1 else 1)"

definition add_book :: "library \<Rightarrow> string \<Rightarrow> string \<Rightarrow> int \<Rightarrow> world \<Rightarrow> library \<times> world" where
  "add_book self ttl auth yr w =
     (let new_id = generate_id self;
          new_book = Book ttl auth yr new_id default_status;
          self' = self\<lparr>books := books self @ [new_book]\<rparr>
      in (self', save_books self' w))"

definition find_book_by_id :: "library \<Rightarrow> int \<Rightarrow> book option" where
  "find_book_by_id self bid = List.find (\<lambda>b. book_id b = bid) (books self)"

text \<open>
  \<open>remove_book\<close>. A \<open>Book\<close> object is always true, so \<open>if book\<close> asks whether one was found.
  \<open>list.remove\<close> deletes the first element equal to its argument; \<open>Book\<close> defines no
  equality, so that is the object found, which is the first of the list with the
  identifier (\<open>remove1_found\<close> below).
\<close>

definition remove_book :: "library \<Rightarrow> int \<Rightarrow> world \<Rightarrow> library \<times> world" where
  "remove_book self bid w =
     (case find_book_by_id self bid of
        Some b \<Rightarrow>
          (let self' = self\<lparr>books := remove1 b (books self)\<rparr>
           in (self', save_books self' w))
      | None \<Rightarrow> (self, w\<lparr>stdout := stdout w @ [NotFoundMsg bid]\<rparr>))"

text \<open>
  \<open>find_books\<close>. \<open>if title:\<close>, \<open>if author:\<close> and \<open>if year:\<close> are false for \<open>None\<close>, for
  the empty string and for \<open>0\<close>, and true for every other string and integer. \<open>x in y\<close>
  on strings is \<^const>\<open>sublist\<close>. \<open>str.lower\<close> follows the Unicode tables, which are no
  part of the program: it is the parameter \<open>lower\<close>, and everything proved holds for
  every such function.
\<close>

definition find_books ::
  "(string \<Rightarrow> string) \<Rightarrow> library \<Rightarrow> string option \<Rightarrow> string option \<Rightarrow> int option \<Rightarrow> book list" where
  "find_books lower self ttl auth yr =
     (let result = books self;
          result = (case ttl of
                      None \<Rightarrow> result
                    | Some t \<Rightarrow>
                        if t \<noteq> []
                        then filter (\<lambda>b. sublist (lower t) (lower (title b))) result
                        else result);
          result = (case auth of
                      None \<Rightarrow> result
                    | Some a \<Rightarrow>
                        if a \<noteq> []
                        then filter (\<lambda>b. sublist (lower a) (lower (author b))) result
                        else result);
          result = (case yr of
                      None \<Rightarrow> result
                    | Some y \<Rightarrow> if y \<noteq> 0 then filter (\<lambda>b. year b = y) result else result)
      in result)"

definition list_books :: "library \<Rightarrow> book list" where
  "list_books self = books self"

text \<open>
  \<open>change_status\<close>. \<open>book.status = new_status\<close> assigns to the object found, the first of
  the list with the identifier. Every element of the list is an object of its own (each
  is built by one call of \<open>Book\<close>, in \<open>from_dict\<close> or in \<open>add_book\<close>, and stored once), so
  the assignment changes that one element of the list and no other.
\<close>

fun assign_status :: "int \<Rightarrow> string \<Rightarrow> book list \<Rightarrow> book list" where
  "assign_status bid st [] = []"
| "assign_status bid st (b # bs) =
     (if book_id b = bid then b\<lparr>status := st\<rparr> # bs else b # assign_status bid st bs)"

definition change_status :: "library \<Rightarrow> int \<Rightarrow> string \<Rightarrow> world \<Rightarrow> library \<times> world" where
  "change_status self bid new_status w =
     (case find_book_by_id self bid of
        Some b \<Rightarrow>
          (let self' = self\<lparr>books := assign_status bid new_status (books self)\<rparr>
           in (self', save_books self' w))
      | None \<Rightarrow> (self, w\<lparr>stdout := stdout w @ [NotFoundMsg bid]\<rparr>))"

text \<open>
  A sequence of calls of \<open>add_book\<close>, one for each triple of title, author and year, each
  on the library and the files the call before it left.
\<close>

fun add_all :: "(string \<times> string \<times> int) list \<Rightarrow> library \<Rightarrow> world \<Rightarrow> library \<times> world" where
  "add_all [] self w = (self, w)"
| "add_all ((ttl, auth, yr) # rs) self w =
     (case add_book self ttl auth yr w of (self', w') \<Rightarrow> add_all rs self' w')"

text \<open>
  A session with the library: it is built on a path (\<open>Library(path)\<close>), and then any
  operations that change it are called one after the other, each on the library and the
  files the one before left. \<open>Restart\<close> is the end of the process and a new one: a library
  is built anew on the same path. Searching and listing change nothing and are left out.
  An exception ends the session.
\<close>

datatype operation =
    AddBook string string int
  | RemoveBook int
  | ChangeStatus int string
  | Restart

fun step :: "operation \<Rightarrow> library \<times> world \<Rightarrow> error + library \<times> world" where
  "step (AddBook ttl auth yr) (self, w) = Inr (add_book self ttl auth yr w)"
| "step (RemoveBook bid) (self, w) = Inr (remove_book self bid w)"
| "step (ChangeStatus bid st) (self, w) = Inr (change_status self bid st w)"
| "step Restart (self, w) = Library_init (storage_file self) w"

fun run :: "operation list \<Rightarrow> library \<times> world \<Rightarrow> error + library \<times> world" where
  "run [] s = Inr s"
| "run (x # xs) s = (case step x s of Inl e \<Rightarrow> Inl e | Inr s' \<Rightarrow> run xs s')"

definition session :: "string \<Rightarrow> operation list \<Rightarrow> world \<Rightarrow> error + library \<times> world" where
  "session path ops w =
     (case Library_init path w of Inl e \<Rightarrow> Inl e | Inr s \<Rightarrow> run ops s)"

text \<open>
  What holds of a library and its files all through a session that starts where the
  path holds no JSON document: the identifiers are pairwise distinct and at least 1, and
  the file holds the books of the library, or holds no document while the library has
  no books.
\<close>

definition well_kept :: "library \<times> world \<Rightarrow> bool" where
  "well_kept s =
     (distinct (map book_id (books (fst s))) \<and>
      list_all (\<lambda>b. 1 \<le> book_id b) (books (fst s)) \<and>
      (case files (snd s) (storage_file (fst s)) of
         Some (Document v) \<Rightarrow> v = JArr (map to_dict (books (fst s)))
       | _ \<Rightarrow> books (fst s) = []))"

section \<open>The criteria of a search, as the specification words them\<close>

text \<open>
  A book matches the criteria supplied when its title contains the title asked for and
  its author the author asked for, both compared after \<open>lower\<close>, and its year is the year
  asked for; a criterion left out (\<open>None\<close>) asks for nothing. This definition follows the
  words of the specification, not the code; \<open>find_books\<close> is compared with it below.
\<close>

definition matches_supplied ::
  "(string \<Rightarrow> string) \<Rightarrow> string option \<Rightarrow> string option \<Rightarrow> int option \<Rightarrow> book \<Rightarrow> bool" where
  "matches_supplied lower ttl auth yr b =
     ((case ttl of None \<Rightarrow> True | Some t \<Rightarrow> sublist (lower t) (lower (title b))) \<and>
      (case auth of None \<Rightarrow> True | Some a \<Rightarrow> sublist (lower a) (lower (author b))) \<and>
      (case yr of None \<Rightarrow> True | Some y \<Rightarrow> year b = y))"

text \<open>The criterion a search really uses: an empty string and the year 0 count as left
  out.\<close>

definition given_str :: "string option \<Rightarrow> string option" where
  "given_str s = (if s = Some [] then None else s)"

definition given_int :: "int option \<Rightarrow> int option" where
  "given_int n = (if n = Some 0 then None else n)"

text \<open>The keys \<open>from_dict\<close> reads, in the order it reads them.\<close>

definition required_keys :: "string list" where
  "required_keys = [''title'', ''author'', ''year'', ''id'', ''status'']"

section \<open>Example data\<close>

text \<open>
  The data of the examples: no file and nothing printed yet, some books, and
  \<open>str.lower\<close> on ASCII text (the letters A to Z are moved to a to z, every other byte is
  kept).
\<close>

definition empty_world :: world where
  "empty_world = \<lparr>files = Map.empty, stdout = []\<rparr>"

definition dune :: book where
  "dune = Book ''Dune'' ''Herbert'' 1965 1 default_status"

definition foundation :: book where
  "foundation = Book ''Foundation'' ''Asimov'' 1951 2 default_status"

definition emma :: book where
  "emma = Book ''Emma'' ''Austen'' 1815 5 default_status"

definition dune_reprint :: book where
  "dune_reprint = Book ''Dune'' ''Herbert'' 1984 1 default_status"

definition zero_book :: book where
  "zero_book = Book ''Untitled'' ''Anonymous'' 2000 0 default_status"

text \<open>
  Files a library can be built on: one that is no JSON; one whose second record lacks
  the key \<open>status\<close>; one with two records of the identifier 1; one whose only record has
  the identifier 0.
\<close>

definition malformed_world :: world where
  "malformed_world = \<lparr>files = [''library.json'' \<mapsto> Malformed], stdout = []\<rparr>"

definition missing_status_world :: world where
  "missing_status_world =
     \<lparr>files = [''library.json'' \<mapsto>
        Document (JArr [to_dict dune,
          JObj [(''id'', JInt 2), (''title'', JStr ''Foundation''),
                (''author'', JStr ''Asimov''), (''year'', JInt 1951)]])],
      stdout = []\<rparr>"

definition duplicate_world :: world where
  "duplicate_world =
     \<lparr>files = [''library.json'' \<mapsto> Document (JArr [to_dict dune, to_dict dune_reprint])],
      stdout = []\<rparr>"

definition zero_world :: world where
  "zero_world =
     \<lparr>files = [''library.json'' \<mapsto> Document (JArr [to_dict zero_book])], stdout = []\<rparr>"

definition ascii_lower :: "string \<Rightarrow> string" where
  "ascii_lower s =
     map (\<lambda>c. if 65 \<le> (of_char c :: nat) \<and> (of_char c :: nat) \<le> 90
              then char_of (of_char c + (32 :: nat)) else c) s"

section \<open>Basic facts\<close>

lemma from_dict_to_dict: "from_dict (to_dict b) = Inr b"
  by (simp add: from_dict_def to_dict_def Book_def)

lemma from_dicts_to_dict: "from_dicts (map to_dict bs) = Inr bs"
  by (induction bs) (simp_all add: from_dict_to_dict)

lemma generate_id_above: "b \<in> set (books self) \<Longrightarrow> book_id b < generate_id self"
proof -
  assume b: "b \<in> set (books self)"
  then have ne: "books self \<noteq> []" by auto
  have "book_id b \<le> Max (set (map book_id (books self)))"
    using b by (intro Max_ge) auto
  with ne show ?thesis by (simp add: generate_id_def)
qed

lemma add_book_books:
  "books (fst (add_book self ttl auth yr w)) =
     books self @ [Book ttl auth yr (generate_id self) default_status]"
  by (simp add: add_book_def Let_def)

lemma add_book_world:
  "snd (add_book self ttl auth yr w) = save_books (fst (add_book self ttl auth yr w)) w"
  by (simp add: add_book_def Let_def)

text \<open>Lists: the first element with a property, and the list without it.\<close>

lemma find_first:
  "\<exists>x \<in> set xs. P x \<Longrightarrow>
     length (takeWhile (\<lambda>x. \<not> P x) xs) < length xs \<and>
     List.find P xs = Some (xs ! length (takeWhile (\<lambda>x. \<not> P x) xs)) \<and>
     P (xs ! length (takeWhile (\<lambda>x. \<not> P x) xs))"
  by (induction xs) auto

lemma before_first: "j < length (takeWhile (\<lambda>x. \<not> P x) xs) \<Longrightarrow> \<not> P (xs ! j)"
  by (metis nth_mem set_takeWhileD takeWhile_nth)

lemma remove1_found:
  "List.find P xs = Some b \<Longrightarrow>
     remove1 b xs = takeWhile (\<lambda>x. \<not> P x) xs @ tl (dropWhile (\<lambda>x. \<not> P x) xs)"
proof (induction xs)
  case Nil
  then show ?case by simp
next
  case (Cons x xs)
  show ?case
  proof (cases "P x")
    case True
    with Cons.prems show ?thesis by simp
  next
    case False
    with Cons.prems have f: "List.find P xs = Some b" by simp
    then have "P b" by (auto simp: find_Some_iff)
    with False have "x \<noteq> b" by auto
    with False Cons.IH [OF f] show ?thesis by simp
  qed
qed

lemma length_without_first:
  "\<exists>x \<in> set xs. P x \<Longrightarrow>
     length (takeWhile (\<lambda>x. \<not> P x) xs @ tl (dropWhile (\<lambda>x. \<not> P x) xs)) + 1 = length xs"
  by (induction xs) auto

lemma set_without_first:
  "set (takeWhile P xs @ tl (dropWhile P xs)) \<subseteq> set xs"
  by (induction xs) auto

lemma distinct_count_one:
  "distinct xs \<Longrightarrow> x \<in> set xs \<Longrightarrow> count_list xs x = 1"
  by (induction xs) (auto simp: count_list_0_iff)

lemma find_after_removal:
  "bid \<in> book_id ` set bs \<Longrightarrow>
     (List.find (\<lambda>b. book_id b = bid)
        (takeWhile (\<lambda>b. book_id b \<noteq> bid) bs @ tl (dropWhile (\<lambda>b. book_id b \<noteq> bid) bs)) = None) =
     (count_list (map book_id bs) bid = 1)"
proof (induction bs)
  case Nil
  then show ?case by simp
next
  case (Cons b bs)
  show ?case
  proof (cases "book_id b = bid")
    case True
    have "(List.find (\<lambda>b. book_id b = bid) bs = None) = (bid \<notin> book_id ` set bs)"
      by (auto simp: find_None_iff)
    also have "\<dots> = (count_list (map book_id bs) bid = 0)"
      by (simp add: count_list_0_iff)
    finally show ?thesis using True by simp
  next
    case False
    with Cons show ?thesis by auto
  qed
qed

lemma assign_status_update:
  "assign_status bid st bs =
     (if bid \<in> book_id ` set bs
      then bs[length (takeWhile (\<lambda>b. book_id b \<noteq> bid) bs) :=
                (bs ! length (takeWhile (\<lambda>b. book_id b \<noteq> bid) bs))\<lparr>status := st\<rparr>]
      else bs)"
  by (induction bs) auto

text \<open>Looking a book up, and removing it.\<close>

lemma find_book_by_id_None: "(find_book_by_id self bid = None) = (bid \<notin> book_id ` set (books self))"
  by (auto simp: find_book_by_id_def find_None_iff)

lemma find_book_by_id_first:
  "bid \<in> book_id ` set (books self) \<Longrightarrow>
     find_book_by_id self bid =
       Some (books self ! length (takeWhile (\<lambda>b. book_id b \<noteq> bid) (books self)))"
  using find_first [of "books self" "\<lambda>b. book_id b = bid"]
  by (auto simp: find_book_by_id_def)

lemma remove_book_absent:
  "bid \<notin> book_id ` set (books self) \<Longrightarrow>
     remove_book self bid w = (self, w\<lparr>stdout := stdout w @ [NotFoundMsg bid]\<rparr>)"
  by (simp add: remove_book_def find_book_by_id_None [symmetric])

lemma remove_book_present:
  assumes present: "bid \<in> book_id ` set (books self)"
  shows "remove_book self bid w =
     (self\<lparr>books := takeWhile (\<lambda>b. book_id b \<noteq> bid) (books self) @
                      tl (dropWhile (\<lambda>b. book_id b \<noteq> bid) (books self))\<rparr>,
      save_books
        (self\<lparr>books := takeWhile (\<lambda>b. book_id b \<noteq> bid) (books self) @
                         tl (dropWhile (\<lambda>b. book_id b \<noteq> bid) (books self))\<rparr>) w)"
proof -
  define b where "b = books self ! length (takeWhile (\<lambda>b. book_id b \<noteq> bid) (books self))"
  have found: "find_book_by_id self bid = Some b"
    using find_book_by_id_first [OF present] by (simp add: b_def)
  have "remove1 b (books self) =
      takeWhile (\<lambda>b. book_id b \<noteq> bid) (books self) @
      tl (dropWhile (\<lambda>b. book_id b \<noteq> bid) (books self))"
    using remove1_found [of "\<lambda>b. book_id b = bid" "books self" b] found
    by (simp add: find_book_by_id_def)
  with found show ?thesis by (simp add: remove_book_def Let_def)
qed

text \<open>Records that cannot be rebuilt.\<close>

lemma from_dict_missing_key:
  "List.find (\<lambda>k. map_of kvs k = None) required_keys = Some k \<Longrightarrow>
     from_dict (JObj kvs) = Inl (KeyError k)"
  by (auto simp: required_keys_def from_dict_def split: if_splits option.splits)

lemma from_dicts_first_failure:
  "x \<in> set xs \<Longrightarrow> from_dict x = Inl e \<Longrightarrow>
     \<forall>y \<in> set (takeWhile (\<lambda>y. y \<noteq> x) xs). \<not> isl (from_dict y) \<Longrightarrow>
     from_dicts xs = Inl e"
proof (induction xs)
  case Nil
  then show ?case by simp
next
  case (Cons y ys)
  show ?case
  proof (cases "y = x")
    case True
    with Cons.prems show ?thesis by simp
  next
    case False
    with Cons.prems have "\<not> isl (from_dict y)" by simp
    then obtain b where b: "from_dict y = Inr b" by (cases "from_dict y") auto
    from False Cons.prems have "from_dicts ys = Inl e"
      by (intro Cons.IH) auto
    with b show ?thesis by simp
  qed
qed

lemma from_dicts_any_failure:
  "x \<in> set xs \<Longrightarrow> isl (from_dict x) \<Longrightarrow> isl (from_dicts xs)"
  by (induction xs) (auto split: sum.splits)

lemma lower_examples:
  "ascii_lower ''herb'' = ''herb''"
  "ascii_lower ''Herbert'' = ''herbert''"
  "ascii_lower ''Asimov'' = ''asimov''"
  by code_simp+

section \<open>Identifiers of added books\<close>

lemma add_all_new:
  "\<exists>news. books (fst (add_all rs self w)) = books self @ news \<and> length news = length rs \<and>
     sorted_wrt (<) (map book_id news) \<and>
     (\<forall>old \<in> set (books self). \<forall>new \<in> set news. book_id old < book_id new)"
proof (induction rs arbitrary: self w)
  case Nil
  then show ?case by simp
next
  case (Cons r rs)
  obtain ttl auth yr where r: "r = (ttl, auth, yr)" by (cases r) auto
  obtain self' w' where step: "add_book self ttl auth yr w = (self', w')" by fastforce
  define nb where "nb = Book ttl auth yr (generate_id self) default_status"
  have bs': "books self' = books self @ [nb]"
    using add_book_books [of self ttl auth yr w] step by (simp add: nb_def)
  from Cons.IH [of self' w'] obtain news where
    n1: "books (fst (add_all rs self' w')) = books self' @ news" and
    n2: "length news = length rs" and
    n3: "sorted_wrt (<) (map book_id news)" and
    n4: "\<forall>old \<in> set (books self'). \<forall>new \<in> set news. book_id old < book_id new"
    by blast
  have old_nb: "\<forall>old \<in> set (books self). book_id old < book_id nb"
    using generate_id_above by (simp add: nb_def Book_def)
  have "books (fst (add_all (r # rs) self w)) = books self @ (nb # news)"
    using r step n1 bs' by simp
  moreover have "length (nb # news) = length (r # rs)" using n2 by simp
  moreover have "sorted_wrt (<) (map book_id (nb # news))"
    using n3 n4 bs' by simp
  moreover have "\<forall>old \<in> set (books self). \<forall>new \<in> set (nb # news). book_id old < book_id new"
    using n4 bs' old_nb by simp
  ultimately show ?case by blast
qed

text \<open>
  C1. The identifier \<open>add_book\<close> gives the next book is 1 when the library has no book
  and 1 + the greatest identifier present otherwise. Hence, after any sequence of calls
  of \<open>add_book\<close> on any library: the books that were there are still there, in front; one
  book was added for each call; the identifiers of the added books increase strictly in
  the order of the calls, so they are pairwise distinct; and each is greater than the
  identifier of every book that was there before.
\<close>

theorem generate_id_increasing:
  "book_id (last (books (fst (add_book self ttl auth yr w)))) =
     (if books self = [] then 1 else 1 + Max (set (map book_id (books self)))) \<and>
   take (length (books self)) (books (fst (add_all rs self w))) = books self \<and>
   length (books (fst (add_all rs self w))) = length (books self) + length rs \<and>
   sorted_wrt (<) (map book_id (drop (length (books self)) (books (fst (add_all rs self w))))) \<and>
   distinct (map book_id (drop (length (books self)) (books (fst (add_all rs self w))))) \<and>
   (\<forall>old \<in> set (books self).
      \<forall>new \<in> set (drop (length (books self)) (books (fst (add_all rs self w)))).
        book_id old < book_id new)"
proof -
  obtain news where
    n1: "books (fst (add_all rs self w)) = books self @ news" and
    n2: "length news = length rs" and
    n3: "sorted_wrt (<) (map book_id news)" and
    n4: "\<forall>old \<in> set (books self). \<forall>new \<in> set news. book_id old < book_id new"
    using add_all_new by blast
  have d: "drop (length (books self)) (books (fst (add_all rs self w))) = news"
    using n1 by simp
  have "distinct (map book_id news)"
    using n3 strict_sorted_iff by blast
  moreover have "book_id (last (books (fst (add_book self ttl auth yr w)))) =
     (if books self = [] then 1 else 1 + Max (set (map book_id (books self))))"
    by (simp add: add_book_books Book_def generate_id_def)
  ultimately show ?thesis
    using n1 n2 n3 n4 d by simp
qed

theorem generate_id_increasing_witness:
  "book_id (last (books (fst (add_book \<lparr>storage_file = ''library.json'', books = [emma]\<rparr>
       ''Dune'' ''Herbert'' 1965 empty_world)))) = 6 \<and>
   map book_id (books (fst (add_all [(''Dune'', ''Herbert'', 1965), (''Foundation'', ''Asimov'', 1951)]
       \<lparr>storage_file = ''library.json'', books = [emma]\<rparr> empty_world))) = [5, 6, 7] \<and>
   book_id emma < 6 \<and> book_id emma < 7"
  using generate_id_increasing [of "\<lparr>storage_file = ''library.json'', books = [emma]\<rparr>"
      "''Dune''" "''Herbert''" 1965 empty_world
      "[(''Dune'', ''Herbert'', 1965), (''Foundation'', ''Asimov'', 1951)]"]
  by (simp add: add_book_def generate_id_def Book_def emma_def Let_def)

section \<open>Searching\<close>

text \<open>
  C2, as the code has it. \<open>find_books\<close> returns exactly the books that match all the
  criteria that are given and true in Python's sense: a title or an author that is
  \<open>None\<close> or the empty string, and a year that is \<open>None\<close> or 0, ask for nothing. Title and
  author are matched as substrings after \<open>lower\<close>, the year by equality. Without criteria
  every book is returned; the result keeps the order of the library (it is a subsequence
  of it); and it is the empty list exactly when no book matches.
\<close>

theorem find_books_filter:
  "find_books lower self ttl auth yr =
     filter (matches_supplied lower (given_str ttl) (given_str auth) (given_int yr)) (books self) \<and>
   find_books lower self None None None = books self \<and>
   subseq (find_books lower self ttl auth yr) (books self) \<and>
   (find_books lower self ttl auth yr = []) =
     (\<not> (\<exists>b \<in> set (books self).
        matches_supplied lower (given_str ttl) (given_str auth) (given_int yr) b))"
proof -
  have eq: "find_books lower self ttl auth yr =
     filter (matches_supplied lower (given_str ttl) (given_str auth) (given_int yr)) (books self)"
    by (cases ttl; cases auth; cases yr)
       (auto simp: find_books_def matches_supplied_def given_str_def given_int_def
          intro: filter_cong)
  have all: "find_books lower self None None None = books self"
    by (simp add: find_books_def)
  show ?thesis
    using all by (simp add: eq filter_empty_conv)
qed

theorem find_books_filter_witness:
  "find_books ascii_lower \<lparr>storage_file = ''library.json'', books = [dune, foundation]\<rparr>
     None (Some ''herb'') None =
   filter (matches_supplied ascii_lower None (Some ''herb'') None) [dune, foundation] \<and>
   find_books ascii_lower \<lparr>storage_file = ''library.json'', books = [dune, foundation]\<rparr>
     None (Some ''herb'') None = [dune] \<and>
   find_books ascii_lower \<lparr>storage_file = ''library.json'', books = [dune, foundation]\<rparr>
     None (Some ''herb'') (Some 1951) = []"
proof -
  have a: "sublist ''herb'' ''herbert''" "\<not> sublist ''herb'' ''asimov''"
    by (simp_all add: sublist_Cons_right)
  have b: "author dune = ''Herbert''" "author foundation = ''Asimov''"
     "year dune = 1965" "year foundation = 1951"
    by (simp_all add: dune_def foundation_def Book_def)
  show ?thesis
    using find_books_filter
      [of ascii_lower "\<lparr>storage_file = ''library.json'', books = [dune, foundation]\<rparr>"
         None "Some ''herb''" None]
    by (simp add: find_books_def matches_supplied_def given_str_def given_int_def
        lower_examples a b)
qed

text \<open>
  C2 as it is worded fails for the year 0, a criterion that is supplied: no book of the
  example is of the year 0, and the search for the year 0 returns both.
\<close>

theorem find_books_year_zero_counterexample:
  "find_books ascii_lower \<lparr>storage_file = ''library.json'', books = [dune, foundation]\<rparr>
     None None (Some 0) = [dune, foundation] \<and>
   filter (matches_supplied ascii_lower None None (Some 0)) [dune, foundation] = [] \<and>
   find_books ascii_lower \<lparr>storage_file = ''library.json'', books = [dune, foundation]\<rparr>
     None None (Some 0) \<noteq>
   filter (matches_supplied ascii_lower None None (Some 0))
     (books \<lparr>storage_file = ''library.json'', books = [dune, foundation]\<rparr>)"
  by (simp add: find_books_def matches_supplied_def dune_def foundation_def Book_def)

text \<open>
  C9. A criterion that is false in Python's sense is treated as left out: searching with
  the empty string as title, with the empty string as author or with the year 0 gives
  what the search without that criterion gives, whatever the other criteria are. So the
  empty title alone, and the year 0 alone, return every book.
\<close>

theorem falsy_criteria_omitted:
  "find_books lower self (Some []) auth yr = find_books lower self None auth yr \<and>
   find_books lower self ttl (Some []) yr = find_books lower self ttl None yr \<and>
   find_books lower self ttl auth (Some 0) = find_books lower self ttl auth None \<and>
   find_books lower self (Some []) None None = books self \<and>
   find_books lower self None None (Some 0) = books self"
  by (simp add: find_books_def)

theorem falsy_criteria_omitted_witness:
  "find_books ascii_lower \<lparr>storage_file = ''library.json'', books = [dune, foundation]\<rparr>
     (Some []) None None = [dune, foundation] \<and>
   find_books ascii_lower \<lparr>storage_file = ''library.json'', books = [dune, foundation]\<rparr>
     None (Some []) None = [dune, foundation] \<and>
   find_books ascii_lower \<lparr>storage_file = ''library.json'', books = [dune, foundation]\<rparr>
     None None (Some 0) = [dune, foundation] \<and>
   year dune \<noteq> 0 \<and> year foundation \<noteq> 0"
  using falsy_criteria_omitted
      [where lower = ascii_lower
         and self = "\<lparr>storage_file = ''library.json'', books = [dune, foundation]\<rparr>"
         and ttl = None and auth = None and yr = None]
  by (simp add: find_books_def dune_def foundation_def Book_def)

section \<open>Persistence\<close>

text \<open>
  C3. Round trip: after \<open>save_books\<close>, a library newly built on the same file has the
  books of the library saved: the same books (identifier, title, author, year and
  status of each) in the same order. Building it succeeds, prints nothing and leaves the
  files as they are.
\<close>

theorem save_then_load:
  "Library_init (storage_file self) (save_books self w) = Inr (self, save_books self w)"
  by (simp add: Library_init_def load_books_def save_books_def from_dicts_to_dict)

theorem save_then_load_witness:
  "Library_init ''library.json''
     (save_books \<lparr>storage_file = ''library.json'', books = [dune, foundation]\<rparr> empty_world) =
   Inr (\<lparr>storage_file = ''library.json'', books = [dune, foundation]\<rparr>,
        save_books \<lparr>storage_file = ''library.json'', books = [dune, foundation]\<rparr> empty_world)"
  using save_then_load [of "\<lparr>storage_file = ''library.json'', books = [dune, foundation]\<rparr>" empty_world]
  by simp

text \<open>
  C7. When the file is no JSON, building the library succeeds: the decoding error is
  caught, exactly one notice is printed, and the library has no books. It can be used:
  \<open>add_book\<close> then gives the library the one book, with the identifier 1, and writes a
  file from which a library with that book is built without any further notice.
\<close>

theorem load_malformed:
  assumes "files w path = Some Malformed"
  shows "Library_init path w =
           Inr (\<lparr>storage_file = path, books = []\<rparr>, w\<lparr>stdout := stdout w @ [DecodeErrorMsg]\<rparr>) \<and>
         fst (add_book \<lparr>storage_file = path, books = []\<rparr> ttl auth yr
                (w\<lparr>stdout := stdout w @ [DecodeErrorMsg]\<rparr>)) =
           \<lparr>storage_file = path, books = [Book ttl auth yr 1 default_status]\<rparr> \<and>
         Library_init path
           (snd (add_book \<lparr>storage_file = path, books = []\<rparr> ttl auth yr
                   (w\<lparr>stdout := stdout w @ [DecodeErrorMsg]\<rparr>))) =
           Inr (\<lparr>storage_file = path, books = [Book ttl auth yr 1 default_status]\<rparr>,
                snd (add_book \<lparr>storage_file = path, books = []\<rparr> ttl auth yr
                       (w\<lparr>stdout := stdout w @ [DecodeErrorMsg]\<rparr>)))"
proof (intro conjI)
  show "Library_init path w =
           Inr (\<lparr>storage_file = path, books = []\<rparr>, w\<lparr>stdout := stdout w @ [DecodeErrorMsg]\<rparr>)"
    using assms by (simp add: Library_init_def load_books_def)
  show "fst (add_book \<lparr>storage_file = path, books = []\<rparr> ttl auth yr
                (w\<lparr>stdout := stdout w @ [DecodeErrorMsg]\<rparr>)) =
           \<lparr>storage_file = path, books = [Book ttl auth yr 1 default_status]\<rparr>"
    by (simp add: add_book_def generate_id_def Let_def)
  show "Library_init path
           (snd (add_book \<lparr>storage_file = path, books = []\<rparr> ttl auth yr
                   (w\<lparr>stdout := stdout w @ [DecodeErrorMsg]\<rparr>))) =
           Inr (\<lparr>storage_file = path, books = [Book ttl auth yr 1 default_status]\<rparr>,
                snd (add_book \<lparr>storage_file = path, books = []\<rparr> ttl auth yr
                       (w\<lparr>stdout := stdout w @ [DecodeErrorMsg]\<rparr>)))"
    by (simp add: add_book_def generate_id_def Let_def Library_init_def load_books_def
        save_books_def from_dict_to_dict)
qed

theorem load_malformed_witness:
  "files malformed_world ''library.json'' = Some Malformed \<and>
   Library_init ''library.json'' malformed_world =
     Inr (\<lparr>storage_file = ''library.json'', books = []\<rparr>,
          malformed_world\<lparr>stdout := [DecodeErrorMsg]\<rparr>) \<and>
   fst (add_book \<lparr>storage_file = ''library.json'', books = []\<rparr> ''Dune'' ''Herbert'' 1965
          (malformed_world\<lparr>stdout := [DecodeErrorMsg]\<rparr>)) =
     \<lparr>storage_file = ''library.json'', books = [dune]\<rparr> \<and>
   Library_init ''library.json''
     (snd (add_book \<lparr>storage_file = ''library.json'', books = []\<rparr> ''Dune'' ''Herbert'' 1965
             (malformed_world\<lparr>stdout := [DecodeErrorMsg]\<rparr>))) =
     Inr (\<lparr>storage_file = ''library.json'', books = [dune]\<rparr>,
          \<lparr>files = [''library.json'' \<mapsto> Document (JArr [to_dict dune])],
           stdout = [DecodeErrorMsg]\<rparr>)"
  using load_malformed [of malformed_world "''library.json''" "''Dune''" "''Herbert''" 1965]
  by (simp add: malformed_world_def dune_def add_book_def Let_def save_books_def generate_id_def)

text \<open>
  C8, as the code has it. When the file is a JSON array and one of its elements is an
  object without one of the five keys, \<open>from_dict\<close> raises \<open>KeyError\<close> on that object, for
  the first key missing in the order title, author, year, id, status. The record is not
  skipped: \<open>load_books\<close> and the construction of the library end with an exception, no
  book is loaded and nothing is printed. When no record before it fails, the exception
  is that \<open>KeyError\<close>. It is not caught by the handler of the decoding error: it leaves
  \<open>load_books\<close>.
\<close>

theorem missing_key_aborts_load:
  assumes doc: "files w (storage_file self) = Some (Document (JArr xs))"
      and held: "JObj kvs \<in> set xs"
      and miss: "List.find (\<lambda>k. map_of kvs k = None) required_keys = Some k"
  shows "from_dict (JObj kvs) = Inl (KeyError k) \<and>
         isl (load_books self w) \<and>
         isl (Library_init (storage_file self) w) \<and>
         ((\<forall>x \<in> set (takeWhile (\<lambda>x. x \<noteq> JObj kvs) xs). \<not> isl (from_dict x)) \<longrightarrow>
            load_books self w = Inl (KeyError k) \<and>
            Library_init (storage_file self) w = Inl (KeyError k))"
proof -
  have fd: "from_dict (JObj kvs) = Inl (KeyError k)"
    using miss by (rule from_dict_missing_key)
  have load: "load_books self w = Inl e \<and> Library_init (storage_file self) w = Inl e"
    if "from_dicts xs = Inl e" for e
    using that doc by (simp add: Library_init_def load_books_def)
  have "isl (from_dicts xs)"
    using held fd by (intro from_dicts_any_failure [of "JObj kvs"]) auto
  then obtain e where "from_dicts xs = Inl e" by (cases "from_dicts xs") auto
  then have raised: "isl (load_books self w) \<and> isl (Library_init (storage_file self) w)"
    using load by simp
  have "load_books self w = Inl (KeyError k) \<and>
        Library_init (storage_file self) w = Inl (KeyError k)"
    if "\<forall>x \<in> set (takeWhile (\<lambda>x. x \<noteq> JObj kvs) xs). \<not> isl (from_dict x)"
    using from_dicts_first_failure [OF held fd that] load by simp
  with fd raised show ?thesis by simp
qed

theorem missing_key_aborts_load_witness:
  "files missing_status_world ''library.json'' =
     Some (Document (JArr [to_dict dune,
          JObj [(''id'', JInt 2), (''title'', JStr ''Foundation''),
                (''author'', JStr ''Asimov''), (''year'', JInt 1951)]])) \<and>
   List.find (\<lambda>k. map_of [(''id'', JInt 2), (''title'', JStr ''Foundation''),
                (''author'', JStr ''Asimov''), (''year'', JInt 1951)] k = None) required_keys =
     Some ''status'' \<and>
   \<not> isl (from_dict (to_dict dune)) \<and>
   from_dict (JObj [(''id'', JInt 2), (''title'', JStr ''Foundation''),
                (''author'', JStr ''Asimov''), (''year'', JInt 1951)]) = Inl (KeyError ''status'') \<and>
   load_books \<lparr>storage_file = ''library.json'', books = []\<rparr> missing_status_world =
     Inl (KeyError ''status'') \<and>
   Library_init ''library.json'' missing_status_world = Inl (KeyError ''status'')"
proof -
  let ?kvs = "[(''id'', JInt 2), (''title'', JStr ''Foundation''),
                (''author'', JStr ''Asimov''), (''year'', JInt 1951)]"
  let ?self = "\<lparr>storage_file = ''library.json'', books = []\<rparr>"
  have doc: "files missing_status_world (storage_file ?self) =
      Some (Document (JArr [to_dict dune, JObj ?kvs]))"
    by (simp add: missing_status_world_def)
  have held: "JObj ?kvs \<in> set [to_dict dune, JObj ?kvs]"
    by simp
  have miss: "List.find (\<lambda>k. map_of ?kvs k = None) required_keys = Some ''status''"
    by (simp add: required_keys_def)
  have ne: "to_dict dune \<noteq> JObj ?kvs"
    by (simp add: to_dict_def)
  have good: "\<forall>x \<in> set (takeWhile (\<lambda>x. x \<noteq> JObj ?kvs) [to_dict dune, JObj ?kvs]).
      \<not> isl (from_dict x)"
    using ne by (simp add: from_dict_to_dict)
  have first: "\<not> isl (from_dict (to_dict dune))"
    by (simp add: from_dict_to_dict)
  from missing_key_aborts_load [OF doc held miss] good
  have "from_dict (JObj ?kvs) = Inl (KeyError ''status'') \<and>
        load_books ?self missing_status_world = Inl (KeyError ''status'') \<and>
        Library_init (storage_file ?self) missing_status_world = Inl (KeyError ''status'')"
    by blast
  with doc miss first show ?thesis by simp
qed

text \<open>
  C8 as it is worded says that the handler of the decoding error contains the failure.
  It does not: on the file that is no JSON the library is built and the notice printed,
  on the file whose second record has no status the construction ends with \<open>KeyError\<close>.
\<close>

theorem missing_key_not_caught_counterexample:
  "Library_init ''library.json'' malformed_world =
     Inr (\<lparr>storage_file = ''library.json'', books = []\<rparr>,
          malformed_world\<lparr>stdout := [DecodeErrorMsg]\<rparr>) \<and>
   Library_init ''library.json'' missing_status_world = Inl (KeyError ''status'')"
proof -
  have "from_dict (JObj [(''id'', JInt 2), (''title'', JStr ''Foundation''),
                (''author'', JStr ''Asimov''), (''year'', JInt 1951)]) = Inl (KeyError ''status'')"
    by (simp add: from_dict_def)
  then show ?thesis
    by (simp add: Library_init_def load_books_def malformed_world_def missing_status_world_def
        from_dict_to_dict)
qed

section \<open>Adding, removing and changing books\<close>

text \<open>
  C6. \<open>add_book\<close> takes any title, author and year (nothing is checked) and always
  returns: the library is the one before with one book more, at the end, which has the
  identifier generated, the title, author and year given, and as its status the literal
  of the source: the 17 bytes that are the UTF-8 encoding of the Cyrillic text of the
  code points 0432, 0020, 043D, 0430, 043B, 0438, 0447, 0438, 0438 ("available"). The file
  then holds the books of the new library, and nothing is printed.
\<close>

theorem add_book_appends_available:
  "fst (add_book self ttl auth yr w) =
     self\<lparr>books := books self @
        [\<lparr>book_id = generate_id self, title = ttl, author = auth, year = yr,
          status = [CHR 0xD0, CHR 0xB2, CHR 0x20, CHR 0xD0, CHR 0xBD, CHR 0xD0, CHR 0xB0, CHR 0xD0, CHR 0xBB,
      CHR 0xD0, CHR 0xB8, CHR 0xD1, CHR 0x87, CHR 0xD0, CHR 0xB8, CHR 0xD0, CHR 0xB8]\<rparr>]\<rparr> \<and>
   status (last (books (fst (add_book self ttl auth yr w)))) =
     [CHR 0xD0, CHR 0xB2, CHR 0x20, CHR 0xD0, CHR 0xBD, CHR 0xD0, CHR 0xB0, CHR 0xD0, CHR 0xBB,
      CHR 0xD0, CHR 0xB8, CHR 0xD1, CHR 0x87, CHR 0xD0, CHR 0xB8, CHR 0xD0, CHR 0xB8] \<and>
   butlast (books (fst (add_book self ttl auth yr w))) = books self \<and>
   snd (add_book self ttl auth yr w) = save_books (fst (add_book self ttl auth yr w)) w \<and>
   files (snd (add_book self ttl auth yr w)) (storage_file self) =
     Some (Document (JArr (map to_dict (books (fst (add_book self ttl auth yr w)))))) \<and>
   stdout (snd (add_book self ttl auth yr w)) = stdout w"
  by (simp add: add_book_def Let_def Book_def save_books_def default_status_def)

theorem add_book_appends_available_witness:
  "add_book \<lparr>storage_file = ''library.json'', books = []\<rparr> ''Dune'' ''Herbert'' 1965 empty_world =
     (\<lparr>storage_file = ''library.json'',
       books = [\<lparr>book_id = 1, title = ''Dune'', author = ''Herbert'', year = 1965,
          status = [CHR 0xD0, CHR 0xB2, CHR 0x20, CHR 0xD0, CHR 0xBD, CHR 0xD0, CHR 0xB0, CHR 0xD0, CHR 0xBB,
      CHR 0xD0, CHR 0xB8, CHR 0xD1, CHR 0x87, CHR 0xD0, CHR 0xB8, CHR 0xD0, CHR 0xB8]\<rparr>]\<rparr>,
      \<lparr>files = [''library.json'' \<mapsto> Document (JArr
         [JObj [(''id'', JInt 1), (''title'', JStr ''Dune''), (''author'', JStr ''Herbert''),
                (''year'', JInt 1965),
                (''status'', JStr [CHR 0xD0, CHR 0xB2, CHR 0x20, CHR 0xD0, CHR 0xBD, CHR 0xD0, CHR 0xB0, CHR 0xD0, CHR 0xBB,
      CHR 0xD0, CHR 0xB8, CHR 0xD1, CHR 0x87, CHR 0xD0, CHR 0xB8, CHR 0xD0, CHR 0xB8])]])],
       stdout = []\<rparr>) \<and>
   fst (add_book \<lparr>storage_file = ''library.json'', books = [dune]\<rparr> [] [] (- 3) empty_world) =
     \<lparr>storage_file = ''library.json'',
      books = [dune, \<lparr>book_id = 2, title = [], author = [], year = - 3,
          status = [CHR 0xD0, CHR 0xB2, CHR 0x20, CHR 0xD0, CHR 0xBD, CHR 0xD0, CHR 0xB0, CHR 0xD0, CHR 0xBB,
      CHR 0xD0, CHR 0xB8, CHR 0xD1, CHR 0x87, CHR 0xD0, CHR 0xB8, CHR 0xD0, CHR 0xB8]\<rparr>]\<rparr>"
  using add_book_appends_available
      [of "\<lparr>storage_file = ''library.json'', books = []\<rparr>" "''Dune''" "''Herbert''" 1965 empty_world]
    add_book_appends_available
      [of "\<lparr>storage_file = ''library.json'', books = [dune]\<rparr>" "[]" "[]" "- 3" empty_world]
  by (simp add: add_book_def Let_def generate_id_def save_books_def empty_world_def dune_def
      Book_def to_dict_def default_status_def)

text \<open>
  C4, as the code has it. When no book has the identifier, \<open>remove_book\<close> prints the
  notice and changes neither the library nor the files. When a book has it, the first
  such book is removed and the others are kept in their order, the library is one book
  shorter and is saved. A later \<open>find_book_by_id\<close> for the identifier finds nothing
  exactly when one book only had the identifier, as is the case when the identifiers of
  the library are pairwise distinct.
\<close>

theorem remove_book_cases:
  "(bid \<notin> book_id ` set (books self) \<longrightarrow>
      remove_book self bid w = (self, w\<lparr>stdout := stdout w @ [NotFoundMsg bid]\<rparr>)) \<and>
   (bid \<in> book_id ` set (books self) \<longrightarrow>
      fst (remove_book self bid w) =
        self\<lparr>books := takeWhile (\<lambda>b. book_id b \<noteq> bid) (books self) @
                        tl (dropWhile (\<lambda>b. book_id b \<noteq> bid) (books self))\<rparr> \<and>
      length (books (fst (remove_book self bid w))) + 1 = length (books self) \<and>
      snd (remove_book self bid w) = save_books (fst (remove_book self bid w)) w \<and>
      (find_book_by_id (fst (remove_book self bid w)) bid = None) =
        (count_list (map book_id (books self)) bid = 1) \<and>
      (distinct (map book_id (books self)) \<longrightarrow>
         find_book_by_id (fst (remove_book self bid w)) bid = None))"
proof (intro conjI impI)
  assume "bid \<notin> book_id ` set (books self)"
  then show "remove_book self bid w = (self, w\<lparr>stdout := stdout w @ [NotFoundMsg bid]\<rparr>)"
    by (rule remove_book_absent)
next
  assume present: "bid \<in> book_id ` set (books self)"
  note rm = remove_book_present [OF present, of w]
  show "fst (remove_book self bid w) =
        self\<lparr>books := takeWhile (\<lambda>b. book_id b \<noteq> bid) (books self) @
                        tl (dropWhile (\<lambda>b. book_id b \<noteq> bid) (books self))\<rparr>"
    by (simp add: rm)
  show "length (books (fst (remove_book self bid w))) + 1 = length (books self)"
  proof -
    from present have "\<exists>x \<in> set (books self). book_id x = bid" by auto
    from length_without_first [of "books self" "\<lambda>b. book_id b = bid", OF this]
    show ?thesis by (simp add: rm)
  qed
  show "snd (remove_book self bid w) = save_books (fst (remove_book self bid w)) w"
    by (simp add: rm)
  show iff: "(find_book_by_id (fst (remove_book self bid w)) bid = None) =
        (count_list (map book_id (books self)) bid = 1)"
    using find_after_removal [OF present] by (simp add: rm find_book_by_id_def)
  assume "distinct (map book_id (books self))"
  then have "count_list (map book_id (books self)) bid = 1"
    using present by (intro distinct_count_one) auto
  then show "find_book_by_id (fst (remove_book self bid w)) bid = None"
    using iff by simp
qed

theorem remove_book_cases_witness:
  "1 \<in> book_id ` set [dune, foundation] \<and>
   distinct (map book_id [dune, foundation]) \<and>
   remove_book \<lparr>storage_file = ''library.json'', books = [dune, foundation]\<rparr> 1 empty_world =
     (\<lparr>storage_file = ''library.json'', books = [foundation]\<rparr>,
      \<lparr>files = [''library.json'' \<mapsto> Document (JArr [to_dict foundation])], stdout = []\<rparr>) \<and>
   find_book_by_id
     (fst (remove_book \<lparr>storage_file = ''library.json'', books = [dune, foundation]\<rparr> 1
            empty_world)) 1 = None \<and>
   7 \<notin> book_id ` set [dune, foundation] \<and>
   remove_book \<lparr>storage_file = ''library.json'', books = [dune, foundation]\<rparr> 7 empty_world =
     (\<lparr>storage_file = ''library.json'', books = [dune, foundation]\<rparr>,
      \<lparr>files = Map.empty, stdout = [NotFoundMsg 7]\<rparr>)"
proof -
  let ?self = "\<lparr>storage_file = ''library.json'', books = [dune, foundation]\<rparr>"
  have ids: "book_id dune = 1" "book_id foundation = 2"
    by (simp_all add: dune_def foundation_def Book_def)
  have h1: "1 \<in> book_id ` set (books ?self)" using ids by simp
  have h2: "distinct (map book_id (books ?self))" using ids by simp
  have h3: "7 \<notin> book_id ` set (books ?self)" using ids by simp
  from remove_book_cases [of 1 ?self empty_world] h1 h2
  have gone: "find_book_by_id (fst (remove_book ?self 1 empty_world)) 1 = None"
    by blast
  from remove_book_cases [of 7 ?self empty_world] h3
  have kept: "remove_book ?self 7 empty_world =
      (?self, empty_world\<lparr>stdout := stdout empty_world @ [NotFoundMsg 7]\<rparr>)"
    by blast
  have removed: "remove_book ?self 1 empty_world =
     (\<lparr>storage_file = ''library.json'', books = [foundation]\<rparr>,
      \<lparr>files = [''library.json'' \<mapsto> Document (JArr [to_dict foundation])], stdout = []\<rparr>)"
    using ids
    by (simp add: remove_book_def find_book_by_id_def Let_def save_books_def empty_world_def)
  show ?thesis
    using h1 h2 h3 gone kept removed by (simp add: empty_world_def)
qed

text \<open>
  C4 as it is worded (for every library) fails when two books have the identifier: a
  file with two records of the identifier 1 is loaded as it is, and after \<open>remove_book\<close>
  the second of them is found.
\<close>

theorem remove_duplicate_counterexample:
  "Library_init ''library.json'' duplicate_world =
     Inr (\<lparr>storage_file = ''library.json'', books = [dune, dune_reprint]\<rparr>, duplicate_world) \<and>
   find_book_by_id \<lparr>storage_file = ''library.json'', books = [dune, dune_reprint]\<rparr> 1 = Some dune \<and>
   find_book_by_id
     (fst (remove_book \<lparr>storage_file = ''library.json'', books = [dune, dune_reprint]\<rparr> 1
            duplicate_world)) 1 = Some dune_reprint \<and>
   find_book_by_id
     (fst (remove_book \<lparr>storage_file = ''library.json'', books = [dune, dune_reprint]\<rparr> 1
            duplicate_world)) 1 \<noteq> None"
proof -
  have ids: "book_id dune = 1" "book_id dune_reprint = 1" "dune \<noteq> dune_reprint"
    by (simp_all add: dune_def dune_reprint_def Book_def)
  have "Library_init ''library.json'' duplicate_world =
     Inr (\<lparr>storage_file = ''library.json'', books = [dune, dune_reprint]\<rparr>, duplicate_world)"
    by (simp add: Library_init_def load_books_def duplicate_world_def from_dict_to_dict)
  then show ?thesis
    using ids by (simp add: remove_book_def find_book_by_id_def Let_def)
qed

text \<open>
  C5. When no book has the identifier, \<open>change_status\<close> prints the notice and changes
  neither the library nor the files. When a book has it, the first such book gets the
  new status, whatever string that is; its identifier, title, author and year, the other
  books and the length of the list stay as they were, and the library is saved.
\<close>

theorem change_status_cases:
  "(bid \<notin> book_id ` set (books self) \<longrightarrow>
      change_status self bid st w = (self, w\<lparr>stdout := stdout w @ [NotFoundMsg bid]\<rparr>)) \<and>
   (bid \<in> book_id ` set (books self) \<longrightarrow>
      (let pos = length (takeWhile (\<lambda>b. book_id b \<noteq> bid) (books self));
           self' = fst (change_status self bid st w)
       in pos < length (books self) \<and>
          book_id (books self ! pos) = bid \<and>
          (\<forall>j < pos. book_id (books self ! j) \<noteq> bid) \<and>
          self' = self\<lparr>books := (books self)[pos := (books self ! pos)\<lparr>status := st\<rparr>]\<rparr> \<and>
          length (books self') = length (books self) \<and>
          (\<forall>k. k \<noteq> pos \<longrightarrow> books self' ! k = books self ! k) \<and>
          book_id (books self' ! pos) = book_id (books self ! pos) \<and>
          title (books self' ! pos) = title (books self ! pos) \<and>
          author (books self' ! pos) = author (books self ! pos) \<and>
          year (books self' ! pos) = year (books self ! pos) \<and>
          status (books self' ! pos) = st \<and>
          snd (change_status self bid st w) = save_books self' w))"
proof (intro conjI impI)
  assume "bid \<notin> book_id ` set (books self)"
  then have "find_book_by_id self bid = None" by (simp add: find_book_by_id_None)
  then show "change_status self bid st w = (self, w\<lparr>stdout := stdout w @ [NotFoundMsg bid]\<rparr>)"
    by (simp add: change_status_def)
next
  assume present: "bid \<in> book_id ` set (books self)"
  define pos where "pos = length (takeWhile (\<lambda>b. book_id b \<noteq> bid) (books self))"
  have first: "pos < length (books self)" "book_id (books self ! pos) = bid"
    using find_first [of "books self" "\<lambda>b. book_id b = bid"] present
    by (auto simp: pos_def)
  have before: "\<forall>j < pos. book_id (books self ! j) \<noteq> bid"
    using before_first [of _ "\<lambda>b. book_id b = bid" "books self"] by (simp add: pos_def)
  have found: "find_book_by_id self bid = Some (books self ! pos)"
    using find_book_by_id_first [OF present] by (simp add: pos_def)
  have upd: "assign_status bid st (books self) =
      (books self)[pos := (books self ! pos)\<lparr>status := st\<rparr>]"
    using present by (simp add: assign_status_update pos_def)
  have fst_eq: "fst (change_status self bid st w) =
      self\<lparr>books := (books self)[pos := (books self ! pos)\<lparr>status := st\<rparr>]\<rparr>"
    using found upd by (simp add: change_status_def Let_def)
  have snd_eq: "snd (change_status self bid st w) =
      save_books (fst (change_status self bid st w)) w"
    using found by (simp add: change_status_def Let_def)
  show "let pos = length (takeWhile (\<lambda>b. book_id b \<noteq> bid) (books self));
           self' = fst (change_status self bid st w)
       in pos < length (books self) \<and>
          book_id (books self ! pos) = bid \<and>
          (\<forall>j < pos. book_id (books self ! j) \<noteq> bid) \<and>
          self' = self\<lparr>books := (books self)[pos := (books self ! pos)\<lparr>status := st\<rparr>]\<rparr> \<and>
          length (books self') = length (books self) \<and>
          (\<forall>k. k \<noteq> pos \<longrightarrow> books self' ! k = books self ! k) \<and>
          book_id (books self' ! pos) = book_id (books self ! pos) \<and>
          title (books self' ! pos) = title (books self ! pos) \<and>
          author (books self' ! pos) = author (books self ! pos) \<and>
          year (books self' ! pos) = year (books self ! pos) \<and>
          status (books self' ! pos) = st \<and>
          snd (change_status self bid st w) = save_books self' w"
    unfolding Let_def pos_def [symmetric]
    using first before snd_eq by (simp add: fst_eq)
qed

theorem change_status_cases_witness:
  "2 \<in> book_id ` set [dune, foundation] \<and>
   change_status \<lparr>storage_file = ''library.json'', books = [dune, foundation]\<rparr> 2 ''lost''
       empty_world =
     (\<lparr>storage_file = ''library.json'', books = [dune, foundation\<lparr>status := ''lost''\<rparr>]\<rparr>,
      \<lparr>files = [''library.json'' \<mapsto>
                  Document (JArr [to_dict dune, to_dict (foundation\<lparr>status := ''lost''\<rparr>)])],
       stdout = []\<rparr>) \<and>
   7 \<notin> book_id ` set [dune, foundation] \<and>
   change_status \<lparr>storage_file = ''library.json'', books = [dune, foundation]\<rparr> 7 ''lost''
       empty_world =
     (\<lparr>storage_file = ''library.json'', books = [dune, foundation]\<rparr>,
      \<lparr>files = Map.empty, stdout = [NotFoundMsg 7]\<rparr>)"
proof -
  let ?self = "\<lparr>storage_file = ''library.json'', books = [dune, foundation]\<rparr>"
  have ids: "book_id dune = 1" "book_id foundation = 2"
    by (simp_all add: dune_def foundation_def Book_def)
  have h1: "2 \<in> book_id ` set (books ?self)" using ids by simp
  have h3: "7 \<notin> book_id ` set (books ?self)" using ids by simp
  from change_status_cases [of 7 ?self "''lost''" empty_world] h3
  have kept: "change_status ?self 7 ''lost'' empty_world =
      (?self, empty_world\<lparr>stdout := stdout empty_world @ [NotFoundMsg 7]\<rparr>)"
    by blast
  from change_status_cases [of 2 ?self "''lost''" empty_world] h1
  have "fst (change_status ?self 2 ''lost'' empty_world) =
          ?self\<lparr>books := (books ?self)[1 := (books ?self ! 1)\<lparr>status := ''lost''\<rparr>]\<rparr> \<and>
        snd (change_status ?self 2 ''lost'' empty_world) =
          save_books (fst (change_status ?self 2 ''lost'' empty_world)) empty_world"
    using ids by (simp add: Let_def)
  then have changed: "change_status ?self 2 ''lost'' empty_world =
     (\<lparr>storage_file = ''library.json'', books = [dune, foundation\<lparr>status := ''lost''\<rparr>]\<rparr>,
      \<lparr>files = [''library.json'' \<mapsto>
                  Document (JArr [to_dict dune, to_dict (foundation\<lparr>status := ''lost''\<rparr>)])],
       stdout = []\<rparr>)"
    by (simp add: prod_eq_iff save_books_def empty_world_def)
  show ?thesis
    using h1 h3 kept changed by (simp add: empty_world_def)
qed

section \<open>The identifiers of a library built through its operations\<close>

text \<open>
  Pairwise distinct identifiers that are all at least 1 stay so under \<open>add_book\<close>,
  \<open>remove_book\<close> and \<open>change_status\<close>; a library built where there is no file has no
  books. So every library built from nothing by these operations has such identifiers.
\<close>

lemma distinct_map_remove1:
  "distinct (map f xs) \<Longrightarrow> distinct (map f (remove1 x xs))"
  by (auto simp: distinct_map inj_on_diff)

lemma assign_status_ids: "map book_id (assign_status bid st bs) = map book_id bs"
  by (induction bs) auto

lemma operations_keep_identifiers:
  assumes d: "distinct (map book_id (books self))"
      and p: "\<forall>b \<in> set (books self). 1 \<le> book_id b"
  shows "distinct (map book_id (books (fst (add_book self ttl auth yr w)))) \<and>
         (\<forall>b \<in> set (books (fst (add_book self ttl auth yr w))). 1 \<le> book_id b) \<and>
         distinct (map book_id (books (fst (remove_book self bid w)))) \<and>
         (\<forall>b \<in> set (books (fst (remove_book self bid w))). 1 \<le> book_id b) \<and>
         distinct (map book_id (books (fst (change_status self bid st w)))) \<and>
         (\<forall>b \<in> set (books (fst (change_status self bid st w))). 1 \<le> book_id b)"
proof -
  have fresh: "generate_id self \<notin> book_id ` set (books self)"
    using generate_id_above [of _ self] by force
  have one: "1 \<le> generate_id self"
  proof (cases "books self = []")
    case True
    then show ?thesis by (simp add: generate_id_def)
  next
    case False
    then obtain b where "b \<in> set (books self)" by (cases "books self") auto
    with p generate_id_above [of b self] show ?thesis by force
  qed
  have a: "distinct (map book_id (books (fst (add_book self ttl auth yr w)))) \<and>
         (\<forall>b \<in> set (books (fst (add_book self ttl auth yr w))). 1 \<le> book_id b)"
    using d p fresh one by (simp add: add_book_books Book_def)
  have r: "distinct (map book_id (books (fst (remove_book self bid w)))) \<and>
         (\<forall>b \<in> set (books (fst (remove_book self bid w))). 1 \<le> book_id b)"
    using d p
    by (auto simp: remove_book_def Let_def distinct_map_remove1 split: option.splits
          dest: notin_set_remove1)
  have ids: "map book_id (books (fst (change_status self bid st w))) = map book_id (books self)"
    by (simp add: change_status_def Let_def assign_status_ids split: option.splits)
  have "book_id ` set (books (fst (change_status self bid st w))) = book_id ` set (books self)"
    using arg_cong [OF ids, of set] by simp
  then have c: "distinct (map book_id (books (fst (change_status self bid st w)))) \<and>
         (\<forall>b \<in> set (books (fst (change_status self bid st w))). 1 \<le> book_id b)"
    using d p ids by (metis (no_types, lifting) image_iff)
  from a r c show ?thesis by simp
qed

lemma no_file_no_books:
  "files w path = None \<Longrightarrow>
     Library_init path w = Inr (\<lparr>storage_file = path, books = []\<rparr>, w)"
  by (simp add: Library_init_def load_books_def)

section \<open>Identifiers after a removal\<close>

text \<open>
  After the removal of the one book that holds the greatest identifier \<open>m\<close>, the
  identifier generated next is 1 when no book is left and 1 + the greatest identifier
  left otherwise, and it is at most \<open>m\<close>, provided another book is left or \<open>m\<close> is at
  least 1.
\<close>

lemma reuse_after_removal:
  assumes nonempty: "books self \<noteq> []"
      and m: "m = Max (set (map book_id (books self)))"
      and once: "count_list (map book_id (books self)) m = 1"
      and pos: "1 \<le> m \<or> 1 < length (books self)"
  shows "generate_id (fst (remove_book self m w)) \<le> m \<and>
         generate_id (fst (remove_book self m w)) =
           (if books (fst (remove_book self m w)) = [] then 1
            else Max (set (map book_id (books (fst (remove_book self m w))))) + 1) \<and>
         book_id (last (books (fst (add_book (fst (remove_book self m w)) ttl auth yr
                                      (snd (remove_book self m w)))))) =
           generate_id (fst (remove_book self m w))"
proof -
  define rest where "rest = takeWhile (\<lambda>b. book_id b \<noteq> m) (books self) @
                      tl (dropWhile (\<lambda>b. book_id b \<noteq> m) (books self))"
  have "m \<in> set (map book_id (books self))"
    unfolding m using nonempty by (intro Max_in) auto
  then have present: "m \<in> book_id ` set (books self)" by simp
  have rm: "fst (remove_book self m w) = self\<lparr>books := rest\<rparr>"
    by (simp add: remove_book_present [OF present] rest_def)
  have len: "length rest + 1 = length (books self)"
  proof -
    from present have "\<exists>x \<in> set (books self). book_id x = m" by auto
    from length_without_first [of "books self" "\<lambda>b. book_id b = m", OF this]
    show ?thesis by (simp add: rest_def)
  qed
  have "List.find (\<lambda>b. book_id b = m) rest = None"
    using find_after_removal [OF present] once by (simp add: rest_def)
  then have gone: "\<forall>b \<in> set rest. book_id b \<noteq> m"
    by (simp add: find_None_iff)
  have sub: "set rest \<subseteq> set (books self)"
    unfolding rest_def by (rule set_without_first)
  have below: "book_id b < m" if "b \<in> set rest" for b
  proof -
    from that sub have "book_id b \<in> set (map book_id (books self))" by auto
    then have "book_id b \<le> m" unfolding m by (intro Max_ge) auto
    with gone that show ?thesis by fastforce
  qed
  have le: "generate_id (self\<lparr>books := rest\<rparr>) \<le> m"
  proof (cases "rest = []")
    case True
    with len pos show ?thesis by (simp add: generate_id_def)
  next
    case False
    then have "Max (set (map book_id rest)) \<in> set (map book_id rest)"
      by (intro Max_in) auto
    then obtain b where "b \<in> set rest" "Max (set (map book_id rest)) = book_id b"
      by auto
    with below have "Max (set (map book_id rest)) + 1 \<le> m"
      by fastforce
    with False show ?thesis
      unfolding generate_id_def by simp
  qed
  show ?thesis
    using le by (simp add: rm add_book_books Book_def) (simp add: generate_id_def)
qed

text \<open>Every step of a session keeps the library and its files well kept, and none
  raises.\<close>

lemma well_kept_start:
  assumes "\<forall>v. files w path \<noteq> Some (Document v)"
  shows "\<exists>s. Library_init path w = Inr s \<and> well_kept s"
proof (cases "files w path")
  case None
  then show ?thesis by (simp add: Library_init_def load_books_def well_kept_def)
next
  case (Some c)
  with assms show ?thesis
    by (cases c) (simp_all add: Library_init_def load_books_def well_kept_def)
qed

lemma well_kept_saved:
  "distinct (map book_id (books self)) \<Longrightarrow> list_all (\<lambda>b. 1 \<le> book_id b) (books self) \<Longrightarrow>
     well_kept (self, save_books self w)"
  by (simp add: well_kept_def save_books_def)

lemma well_kept_printed:
  "well_kept (self, w) \<Longrightarrow> well_kept (self, w\<lparr>stdout := out\<rparr>)"
  by (simp add: well_kept_def split: option.splits file_content.splits)

lemma well_kept_step:
  assumes k: "well_kept (self, w)"
  shows "\<exists>s. step x (self, w) = Inr s \<and> well_kept s"
proof -
  from k have d: "distinct (map book_id (books self))"
    and p: "\<forall>b \<in> set (books self). 1 \<le> book_id b"
    by (simp_all add: well_kept_def list_all_iff)
  note keep = operations_keep_identifiers [OF d p]
  show ?thesis
  proof (cases x)
    case (AddBook ttl auth yr)
    have "well_kept (add_book self ttl auth yr w)"
      using keep [of ttl auth yr w]
        well_kept_saved [of "fst (add_book self ttl auth yr w)" w]
      by (simp add: add_book_def Let_def list_all_iff)
    with AddBook show ?thesis by simp
  next
    case (RemoveBook bid)
    have "well_kept (remove_book self bid w)"
    proof (cases "find_book_by_id self bid")
      case None
      then show ?thesis using k by (simp add: remove_book_def well_kept_printed)
    next
      case (Some b)
      then show ?thesis
        using keep [of _ _ _ _ bid]
          well_kept_saved [of "fst (remove_book self bid w)" w]
        by (simp add: remove_book_def Let_def list_all_iff)
    qed
    with RemoveBook show ?thesis by simp
  next
    case (ChangeStatus bid st)
    have "well_kept (change_status self bid st w)"
    proof (cases "find_book_by_id self bid")
      case None
      then show ?thesis using k by (simp add: change_status_def well_kept_printed)
    next
      case (Some b)
      then show ?thesis
        using keep [of _ _ _ _ bid st]
          well_kept_saved [of "fst (change_status self bid st w)" w]
        by (simp add: change_status_def Let_def list_all_iff)
    qed
    with ChangeStatus show ?thesis by simp
  next
    case Restart
    show ?thesis
    proof (cases "files w (storage_file self)")
      case None
      with Restart show ?thesis
        by (simp add: Library_init_def load_books_def well_kept_def)
    next
      case (Some c)
      show ?thesis
      proof (cases c)
        case Blank
        with Some Restart show ?thesis
          by (simp add: Library_init_def load_books_def well_kept_def)
      next
        case Malformed
        with Some Restart show ?thesis
          by (simp add: Library_init_def load_books_def well_kept_def)
      next
        case (Document v)
        with Some k have v: "v = JArr (map to_dict (books self))"
          by (simp add: well_kept_def)
        with Some Document Restart k show ?thesis
          by (simp add: Library_init_def load_books_def well_kept_def from_dicts_to_dict)
      qed
    qed
  qed
qed

lemma well_kept_run:
  "well_kept s \<Longrightarrow> \<exists>s'. run xs s = Inr s' \<and> well_kept s'"
proof (induction xs arbitrary: s)
  case Nil
  then show ?case by simp
next
  case (Cons x xs)
  obtain self w where s: "s = (self, w)" by (cases s)
  from Cons.prems s well_kept_step [of self w x]
  obtain s1 where s1: "step x s = Inr s1" "well_kept s1" by auto
  from Cons.IH [OF s1(2)] s1(1) show ?case by simp
qed

lemma well_kept_session:
  assumes "\<forall>v. files w path \<noteq> Some (Document v)"
  shows "\<exists>s. session path xs w = Inr s \<and> well_kept s"
proof -
  from well_kept_start [OF assms] obtain s0 where
    s0: "Library_init path w = Inr s0" "well_kept s0" by auto
  from well_kept_run [OF s0(2), of xs] s0(1) show ?thesis
    by (simp add: session_def)
qed

text \<open>
  C10. Take any session that starts where the path holds no JSON document, so that every
  book of the library was added by \<open>add_book\<close>. The session raises no exception. When
  its library has books, one book only holds the greatest identifier \<open>m\<close>; when that
  book is removed by \<open>remove_book\<close>, the identifier the next \<open>add_book\<close> gives its book is
  at most \<open>m\<close>: it is 1 when no book is left and 1 + the greatest identifier left
  otherwise. An identifier that was given before can so be given again.
\<close>

theorem identifier_reused_after_removal:
  assumes start: "\<forall>v. files w0 path \<noteq> Some (Document v)"
  shows "\<not> isl (session path xs w0) \<and>
         (\<forall>self w m. session path xs w0 = Inr (self, w) \<and> books self \<noteq> [] \<and>
              m = Max (set (map book_id (books self))) \<longrightarrow>
            count_list (map book_id (books self)) m = 1 \<and>
            book_id (last (books (fst (add_book (fst (remove_book self m w)) ttl auth yr
                                         (snd (remove_book self m w)))))) \<le> m \<and>
            book_id (last (books (fst (add_book (fst (remove_book self m w)) ttl auth yr
                                         (snd (remove_book self m w)))))) =
              (if books (fst (remove_book self m w)) = [] then 1
               else Max (set (map book_id (books (fst (remove_book self m w))))) + 1))"
proof (intro conjI allI impI)
  from well_kept_session [OF start, of xs]
  show "\<not> isl (session path xs w0)" by auto
next
  fix self w m
  assume a: "session path xs w0 = Inr (self, w) \<and> books self \<noteq> [] \<and>
              m = Max (set (map book_id (books self)))"
  from well_kept_session [OF start, of xs] a have k: "well_kept (self, w)" by auto
  then have d: "distinct (map book_id (books self))"
    and p: "\<forall>b \<in> set (books self). 1 \<le> book_id b"
    by (simp_all add: well_kept_def list_all_iff)
  from a have nonempty: "books self \<noteq> []" and m: "m = Max (set (map book_id (books self)))"
    by simp_all
  have mem: "m \<in> set (map book_id (books self))"
    unfolding m using nonempty by (intro Max_in) auto
  then have once: "count_list (map book_id (books self)) m = 1"
    using d by (intro distinct_count_one)
  from mem p have "1 \<le> m" by auto
  then have pos: "1 \<le> m \<or> 1 < length (books self)" by simp
  note r = reuse_after_removal [OF nonempty m once pos, of w ttl auth yr]
  show "count_list (map book_id (books self)) m = 1" by (rule once)
  show "book_id (last (books (fst (add_book (fst (remove_book self m w)) ttl auth yr
                                         (snd (remove_book self m w)))))) \<le> m"
    using r by simp
  show "book_id (last (books (fst (add_book (fst (remove_book self m w)) ttl auth yr
                                         (snd (remove_book self m w)))))) =
              (if books (fst (remove_book self m w)) = [] then 1
               else Max (set (map book_id (books (fst (remove_book self m w))))) + 1)"
    using r by simp
qed

theorem identifier_reused_after_removal_witness:
  "files empty_world ''library.json'' = None \<and>
   session ''library.json''
     [AddBook ''Dune'' ''Herbert'' 1965, AddBook ''Foundation'' ''Asimov'' 1951, Restart]
     empty_world =
     Inr (\<lparr>storage_file = ''library.json'', books = [dune, foundation]\<rparr>,
          \<lparr>files = [''library.json'' \<mapsto> Document (JArr [to_dict dune, to_dict foundation])],
           stdout = []\<rparr>) \<and>
   Max (set (map book_id [dune, foundation])) = 2 \<and>
   book_id foundation = 2 \<and>
   count_list (map book_id [dune, foundation]) 2 = 1 \<and>
   books (fst (remove_book \<lparr>storage_file = ''library.json'', books = [dune, foundation]\<rparr> 2
     \<lparr>files = [''library.json'' \<mapsto> Document (JArr [to_dict dune, to_dict foundation])],
      stdout = []\<rparr>)) = [dune] \<and>
   book_id (last (books (fst (add_book
     (fst (remove_book \<lparr>storage_file = ''library.json'', books = [dune, foundation]\<rparr> 2
        \<lparr>files = [''library.json'' \<mapsto> Document (JArr [to_dict dune, to_dict foundation])],
         stdout = []\<rparr>))
     ''Emma'' ''Austen'' 1815
     (snd (remove_book \<lparr>storage_file = ''library.json'', books = [dune, foundation]\<rparr> 2
        \<lparr>files = [''library.json'' \<mapsto> Document (JArr [to_dict dune, to_dict foundation])],
         stdout = []\<rparr>)))))) = 2"
proof -
  let ?self = "\<lparr>storage_file = ''library.json'', books = [dune, foundation]\<rparr>"
  let ?w = "\<lparr>files = [''library.json'' \<mapsto> Document (JArr [to_dict dune, to_dict foundation])],
            stdout = []\<rparr>"
  let ?xs = "[AddBook ''Dune'' ''Herbert'' 1965, AddBook ''Foundation'' ''Asimov'' 1951, Restart]"
  have ids: "book_id dune = 1" "book_id foundation = 2"
    by (simp_all add: dune_def foundation_def Book_def)
  have none: "files empty_world ''library.json'' = None"
    by (simp add: empty_world_def)
  then have start: "\<forall>v. files empty_world ''library.json'' \<noteq> Some (Document v)"
    by simp
  have bid: "book_id (Book t a y i st) = i" for t a y i st
    by (simp add: Book_def)
  have built: "session ''library.json'' ?xs empty_world = Inr (?self, ?w)"
    by (simp add: session_def Library_init_def load_books_def empty_world_def add_book_def
        Let_def generate_id_def save_books_def from_dict_to_dict dune_def foundation_def bid)
  have m: "Max (set (map book_id [dune, foundation])) = 2"
    using ids by simp
  have rest: "books (fst (remove_book ?self 2 ?w)) = [dune]"
    using ids by (simp add: remove_book_def find_book_by_id_def Let_def)
  have given: "session ''library.json'' ?xs empty_world = Inr (?self, ?w) \<and>
      books ?self \<noteq> [] \<and> 2 = Max (set (map book_id (books ?self)))"
    using built m by simp
  note reused = identifier_reused_after_removal
    [OF start, of ?xs "''Emma''" "''Austen''" 1815, THEN conjunct2, rule_format,
     of ?self ?w 2, OF given]
  have once: "count_list (map book_id [dune, foundation]) 2 = 1"
    using reused by simp
  have "book_id (last (books (fst (add_book (fst (remove_book ?self 2 ?w)) ''Emma'' ''Austen'' 1815
                                     (snd (remove_book ?self 2 ?w)))))) =
          (if books (fst (remove_book ?self 2 ?w)) = [] then 1
           else Max (set (map book_id (books (fst (remove_book ?self 2 ?w))))) + 1)"
    using reused by blast
  then have next_id: "book_id (last (books (fst (add_book (fst (remove_book ?self 2 ?w))
      ''Emma'' ''Austen'' 1815 (snd (remove_book ?self 2 ?w)))))) = 2"
    using ids by (simp add: rest)
  show ?thesis
    using none built m ids(2) once rest next_id by simp
qed

text \<open>
  These bounds are about libraries built by the operations. A file written otherwise is
  loaded as it is, and with two books of the greatest identifier, or with the greatest
  identifier 0, the identifier generated after the removal is greater than the one
  removed.
\<close>

lemma edited_file_identifiers:
  "Library_init ''library.json'' duplicate_world =
     Inr (\<lparr>storage_file = ''library.json'', books = [dune, dune_reprint]\<rparr>, duplicate_world) \<and>
   Max (set (map book_id [dune, dune_reprint])) = 1 \<and>
   generate_id
     (fst (remove_book \<lparr>storage_file = ''library.json'', books = [dune, dune_reprint]\<rparr> 1
            duplicate_world)) = 2 \<and>
   Library_init ''library.json'' zero_world =
     Inr (\<lparr>storage_file = ''library.json'', books = [zero_book]\<rparr>, zero_world) \<and>
   Max (set (map book_id [zero_book])) = 0 \<and>
   generate_id
     (fst (remove_book \<lparr>storage_file = ''library.json'', books = [zero_book]\<rparr> 0 zero_world)) = 1 \<and>
   \<not> generate_id
       (fst (remove_book \<lparr>storage_file = ''library.json'', books = [dune, dune_reprint]\<rparr>
              (Max (set (map book_id [dune, dune_reprint]))) duplicate_world))
     \<le> Max (set (map book_id [dune, dune_reprint])) \<and>
   \<not> generate_id
       (fst (remove_book \<lparr>storage_file = ''library.json'', books = [zero_book]\<rparr>
              (Max (set (map book_id [zero_book]))) zero_world))
     \<le> Max (set (map book_id [zero_book]))"
proof -
  have ids: "book_id dune = 1" "book_id dune_reprint = 1" "dune \<noteq> dune_reprint"
     "book_id zero_book = 0"
    by (simp_all add: dune_def dune_reprint_def zero_book_def Book_def)
  have l1: "Library_init ''library.json'' duplicate_world =
     Inr (\<lparr>storage_file = ''library.json'', books = [dune, dune_reprint]\<rparr>, duplicate_world)"
    by (simp add: Library_init_def load_books_def duplicate_world_def from_dict_to_dict)
  have l2: "Library_init ''library.json'' zero_world =
     Inr (\<lparr>storage_file = ''library.json'', books = [zero_book]\<rparr>, zero_world)"
    by (simp add: Library_init_def load_books_def zero_world_def from_dict_to_dict)
  show ?thesis
    using ids l1 l2
    by (simp add: remove_book_def find_book_by_id_def Let_def generate_id_def)
qed

end
